theory Spec2Isabelle
  imports Main "HOL-Library.Word"
begin

section \<open>Values exchanged with the web framework\<close>

text \<open>
  The endpoint functions of \<^verbatim>\<open>main.py\<close> receive and return plain Python values of the
  kinds the \<^verbatim>\<open>json\<close> module produces: \<^verbatim>\<open>None\<close>, \<^verbatim>\<open>bool\<close>, \<^verbatim>\<open>int\<close>, \<^verbatim>\<open>float\<close>, \<^verbatim>\<open>str\<close>,
  \<^verbatim>\<open>list\<close> and \<^verbatim>\<open>dict\<close> with string keys. A Python \<^verbatim>\<open>int\<close> is unbounded, a \<^verbatim>\<open>float\<close> is
  kept as its IEEE-754 binary64 bit pattern (no endpoint inspects one), a \<^verbatim>\<open>str\<close> is kept
  as the code units of its UTF-8 form, and a \<^verbatim>\<open>dict\<close> is an association list in insertion
  order whose lookup takes the first entry of a key. A \<^verbatim>\<open>str\<close> can hold a lone surrogate
  code point (\<^verbatim>\<open>json.loads\<close> gives one for the body \<^verbatim>\<open>"\ud800"\<close>), which has no UTF-8 form;
  it is kept as the three bytes of the same bit layout, \<^verbatim>\<open>ED\<close>, then \<^verbatim>\<open>A0\<close> to \<^verbatim>\<open>BF\<close>,
  then \<^verbatim>\<open>80\<close> to \<^verbatim>\<open>BF\<close>.
\<close>

datatype json =
    JNull
  | JBool bool
  | JInt int
  | JFloat "64 word"
  | JStr string
  | JArr "json list"
  | JObj "(string \<times> json) list"

text \<open>\<^verbatim>\<open>d.get(k)\<close> on a dict: the value stored under \<^verbatim>\<open>k\<close>, and \<^verbatim>\<open>None\<close> when there is none.\<close>

definition dict_get :: "(string \<times> json) list \<Rightarrow> string \<Rightarrow> json" where
  "dict_get d k = (case map_of d k of None \<Rightarrow> JNull | Some v \<Rightarrow> v)"

text \<open>The exceptions that can leave an endpoint function.\<close>

datatype exn =
    JSONDecodeError
  | UnicodeDecodeError
  | UnicodeEncodeError
  | AttributeError
  | OSError
  | WebSocketDisconnect

text \<open>
  \<^verbatim>\<open>data.get(k)\<close> on an arbitrary parsed value \<^verbatim>\<open>data\<close>: only a dict has the attribute
  \<^verbatim>\<open>get\<close>; on every other value the attribute lookup raises \<^verbatim>\<open>AttributeError\<close>.
\<close>

fun py_get :: "json \<Rightarrow> string \<Rightarrow> exn + json" where
  "py_get (JObj d) k = Inr (dict_get d k)"
| "py_get JNull k = Inl AttributeError"
| "py_get (JBool b) k = Inl AttributeError"
| "py_get (JInt i) k = Inl AttributeError"
| "py_get (JFloat f) k = Inl AttributeError"
| "py_get (JStr s) k = Inl AttributeError"
| "py_get (JArr xs) k = Inl AttributeError"

datatype http_method = GET | HEAD | POST | PUT | PATCH | DELETE | OPTIONS

text \<open>
  A request as an endpoint sees it. \<^verbatim>\<open>await request.json()\<close> is the framework's
  \<^verbatim>\<open>json.loads\<close> of the body: it raises when the body is not JSON and returns the parsed
  value otherwise; \<open>req_json\<close> holds that outcome.
\<close>

record request =
  req_method :: http_method
  req_path :: string
  req_json :: "exn + json"

text \<open>
  What \<^verbatim>\<open>print\<close> writes to \<^verbatim>\<open>sys.stdout\<close>, one write per item: the text \<^verbatim>\<open>str(x)\<close> of an
  argument, the separator, the line end.
\<close>

datatype written = Str json | Sep | End

text \<open>
  The process state an endpoint can change and the part of its environment it depends on:
  the items written to \<^verbatim>\<open>sys.stdout\<close> so far, and the stream's behaviour on a write.
  \<open>write_raises w x\<close> is the exception that writing \<open>x\<close> raises, if it raises one; the
  stream's encoding and error handler decide it, and they are set outside the program.
\<close>

record world =
  stdout :: "written list"
  write_raises :: "written \<Rightarrow> exn option"

text \<open>
  \<^verbatim>\<open>print(a, b, ...)\<close> writes \<^verbatim>\<open>str(a)\<close>, then for every further argument the separator and
  its text, and last the line end. The first write that raises ends the call; what was
  written before it stays written.
\<close>

fun print_items :: "json list \<Rightarrow> written list" where
  "print_items [] = [End]"
| "print_items [a] = [Str a, End]"
| "print_items (a # b # args) = Str a # Sep # print_items (b # args)"

fun write_items :: "written list \<Rightarrow> world \<Rightarrow> exn option \<times> world" where
  "write_items [] w = (None, w)"
| "write_items (x # xs) w =
     (case write_raises w x of
        Some e \<Rightarrow> (Some e, w)
      | None \<Rightarrow> write_items xs (w\<lparr>stdout := stdout w @ [x]\<rparr>))"

definition print :: "json list \<Rightarrow> world \<Rightarrow> exn option \<times> world" where
  "print args w = write_items (print_items args) w"

text \<open>
  A standard output that is open and encodes as UTF-8 with the \<^verbatim>\<open>strict\<close> error handler.
  The text of a \<^verbatim>\<open>str\<close> argument is the string itself, and a lone surrogate in it cannot
  be encoded. The text of any other value is its \<^verbatim>\<open>repr\<close>, in which a lone surrogate is
  written as an escape, so it can be encoded.
\<close>

fun has_surrogate :: "string \<Rightarrow> bool" where
  "has_surrogate (a # b # cs) =
     ((a = CHR 0xED \<and> 0xA0 \<le> (of_char b :: nat)) \<or> has_surrogate (b # cs))"
| "has_surrogate cs = False"

fun utf8_strict :: "written \<Rightarrow> exn option" where
  "utf8_strict (Str (JStr s)) = (if has_surrogate s then Some UnicodeEncodeError else None)"
| "utf8_strict x = None"

section \<open>String formatting\<close>

text \<open>\<^verbatim>\<open>str(i)\<close> of a non-negative \<^verbatim>\<open>int\<close>, as an f-string field renders it: decimal digits.\<close>

definition digit_char :: "nat \<Rightarrow> char" where
  "digit_char n = ''0123456789'' ! n"

function str_nat :: "nat \<Rightarrow> string" where
  "str_nat n = (if n < 10 then [digit_char n] else str_nat (n div 10) @ [digit_char (n mod 10)])"
  by pat_completeness auto
termination
  by (relation "measure id") auto

declare str_nat.simps [simp del]

section \<open>The endpoints of main.py\<close>

subsection \<open>REST\<close>

definition rest_example :: json where
  "rest_example = JObj [(''message'', JStr ''Hello from REST API!'')]"

subsection \<open>WebSocket\<close>

text \<open>
  What the peer does next when the endpoint awaits \<^verbatim>\<open>receive_text()\<close>: it delivers a text
  frame, or it closes and the call raises \<^verbatim>\<open>WebSocketDisconnect\<close>.
\<close>

datatype ws_in = TextFrame string | Close

text \<open>What the endpoint does on the socket, in program order.\<close>

datatype ws_event = Accept | ReceiveText string | SendText string

text \<open>
  How far the coroutine got on a finite run of peer actions: suspended in
  \<^verbatim>\<open>receive_text()\<close> with nothing more delivered, or ended by the exception.
\<close>

datatype ws_status = Awaiting | Raised exn

text \<open>
  The body of \<^verbatim>\<open>while True\<close>: one iteration per delivered frame, the reply sent before the
  next \<^verbatim>\<open>receive_text()\<close>. The loop has no exit of its own; it ends only by the exception.
\<close>

fun ws_loop :: "ws_in list \<Rightarrow> ws_event list \<times> ws_status" where
  "ws_loop [] = ([], Awaiting)"
| "ws_loop (Close # fs) = ([], Raised WebSocketDisconnect)"
| "ws_loop (TextFrame d # fs) =
     (case ws_loop fs of
        (evs, st) \<Rightarrow> (ReceiveText d # SendText (''You said: '' @ d) # evs, st))"

definition websocket_endpoint :: "ws_in list \<Rightarrow> ws_event list \<times> ws_status" where
  "websocket_endpoint fs = (case ws_loop fs of (evs, st) \<Rightarrow> (Accept # evs, st))"

subsection \<open>Webhook\<close>

definition webhook_listener :: "request \<Rightarrow> world \<Rightarrow> (exn + json) \<times> world" where
  "webhook_listener request w =
     (case req_json request of
        Inl e \<Rightarrow> (Inl e, w)
      | Inr payload \<Rightarrow>
          (case print [JStr ''Webhook received:'', payload] w of
             (Some e, w') \<Rightarrow> (Inl e, w')
           | (None, w') \<Rightarrow>
               (Inr (JObj [(''status'', JStr ''received''), (''data'', payload)]), w')))"

subsection \<open>Server-sent events\<close>

text \<open>
  The generator \<^verbatim>\<open>event_stream\<close> as the list of the chunks it yields, in order, over
  \<^verbatim>\<open>range(5)\<close>. The one-second sleep after each chunk is not modelled.
\<close>

definition event_stream :: "string list" where
  "event_stream = map (\<lambda>i. ''data: Server message '' @ str_nat i @ [CHR 0x0A, CHR 0x0A]) [0..<5]"

record streaming_response =
  content :: "string list"
  media_type :: string

definition sse_endpoint :: streaming_response where
  "sse_endpoint = \<lparr>content = event_stream, media_type = ''text/event-stream''\<rparr>"

subsection \<open>Composite\<close>

definition composite :: json where
  "composite =
     JObj [(''user'', JObj [(''id'', JInt 1), (''name'', JStr ''Alice'')]),
           (''orders'', JArr [JObj [(''id'', JInt 101), (''item'', JStr ''Book'')],
                              JObj [(''id'', JInt 102), (''item'', JStr ''Laptop'')]])]"

subsection \<open>JSON-RPC\<close>

definition rpc_endpoint :: "request \<Rightarrow> exn + json" where
  "rpc_endpoint request =
     (case req_json request of
        Inl e \<Rightarrow> Inl e
      | Inr data \<Rightarrow>
          (case py_get data ''method'' of
             Inl e \<Rightarrow> Inl e
           | Inr m \<Rightarrow>
               if m = JStr ''ping'' then
                 (case py_get data ''id'' of
                    Inl e \<Rightarrow> Inl e
                  | Inr i \<Rightarrow> Inr (JObj [(''jsonrpc'', JStr ''2.0''), (''result'', JStr ''pong''), (''id'', i)]))
               else
                 (case py_get data ''id'' of
                    Inl e \<Rightarrow> Inl e
                  | Inr i \<Rightarrow>
                      Inr (JObj [(''jsonrpc'', JStr ''2.0''), (''error'', JStr ''Method not found''),
                                 (''id'', i)]))))"

subsection \<open>The route table\<close>

text \<open>
  The HTTP routes the decorators register, in source order, and the call the framework
  makes for a request: the first route whose method and path are the request's. The outcome
  is what the endpoint function returned or raised; \<open>None\<close> says that none of these
  endpoint functions was called.
\<close>

datatype endpoint = Rest | Webhook | Sse | Composite | Rpc

definition routes :: "((http_method \<times> string) \<times> endpoint) list" where
  "routes =
     [((GET, ''/rest''), Rest),
      ((POST, ''/webhook''), Webhook),
      ((GET, ''/sse''), Sse),
      ((GET, ''/composite''), Composite),
      ((POST, ''/rpc''), Rpc)]"

definition resolve :: "http_method \<Rightarrow> string \<Rightarrow> endpoint option" where
  "resolve m p = map_of routes (m, p)"

datatype returned = Body json | Streaming streaming_response

fun invoke :: "endpoint \<Rightarrow> request \<Rightarrow> world \<Rightarrow> (exn + returned) \<times> world" where
  "invoke Rest request w = (Inr (Body rest_example), w)"
| "invoke Webhook request w =
     (case webhook_listener request w of (r, w') \<Rightarrow> (map_sum id Body r, w'))"
| "invoke Sse request w = (Inr (Streaming sse_endpoint), w)"
| "invoke Composite request w = (Inr (Body composite), w)"
| "invoke Rpc request w = (map_sum id Body (rpc_endpoint request), w)"

definition app :: "request \<Rightarrow> world \<Rightarrow> (exn + returned) option \<times> world" where
  "app request w =
     (case resolve (req_method request) (req_path request) of
        None \<Rightarrow> (None, w)
      | Some e \<Rightarrow> (case invoke e request w of (r, w') \<Rightarrow> (Some r, w')))"

text \<open>
  The SSE wire contract as the specification words it: a message with payload \<open>p\<close> is
  the text \<^verbatim>\<open>data: \<close>, then \<open>p\<close>, then two line feeds.
\<close>

definition spec_sse_frame :: "string \<Rightarrow> string" where
  "spec_sse_frame p = ''data: '' @ p @ ''\<newline>\<newline>''"

section \<open>The SOAP service of soap_server.py\<close>

text \<open>
  The f-string \<^verbatim>\<open>f"Hello {name}"\<close>: the field is \<^verbatim>\<open>format(name, "")\<close>, which is the string
  itself for a \<^verbatim>\<open>str\<close> and the text \<^verbatim>\<open>None\<close> when the optional parameter was left out.
\<close>

definition format_unicode :: "string option \<Rightarrow> string" where
  "format_unicode name = (case name of None \<Rightarrow> ''None'' | Some s \<Rightarrow> s)"

definition say_hello :: "string option \<Rightarrow> string" where
  "say_hello name = ''Hello '' @ format_unicode name"

section \<open>Properties\<close>

subsection \<open>Auxiliary facts\<close>

lemma resolve_rpc: "resolve POST ''/rpc'' = Some Rpc"
  by (simp add: resolve_def routes_def)

lemma resolve_webhook: "resolve POST ''/webhook'' = Some Webhook"
  by (simp add: resolve_def routes_def)

lemma resolve_sse: "resolve GET ''/sse'' = Some Sse"
  by (simp add: resolve_def routes_def)

lemma app_rpc:
  "req_method request = POST \<Longrightarrow> req_path request = ''/rpc'' \<Longrightarrow>
   app request w = (Some (map_sum id Body (rpc_endpoint request)), w)"
  by (simp add: app_def resolve_rpc)

lemma app_webhook:
  "req_method request = POST \<Longrightarrow> req_path request = ''/webhook'' \<Longrightarrow>
   app request w =
     (Some (map_sum id Body (fst (webhook_listener request w))), snd (webhook_listener request w))"
  by (simp add: app_def resolve_webhook split: prod.split)

lemma app_sse:
  "req_method request = GET \<Longrightarrow> req_path request = ''/sse'' \<Longrightarrow>
   app request w = (Some (Inr (Streaming sse_endpoint)), w)"
  by (simp add: app_def resolve_sse)

lemma rpc_endpoint_dict:
  "req_json request = Inr (JObj d) \<Longrightarrow>
   rpc_endpoint request =
     Inr (JObj (if dict_get d ''method'' = JStr ''ping''
                then [(''jsonrpc'', JStr ''2.0''), (''result'', JStr ''pong''),
                      (''id'', dict_get d ''id'')]
                else [(''jsonrpc'', JStr ''2.0''), (''error'', JStr ''Method not found''),
                      (''id'', dict_get d ''id'')]))"
  by (simp add: rpc_endpoint_def)

lemma rpc_endpoint_raises: "req_json request = Inl e \<Longrightarrow> rpc_endpoint request = Inl e"
  by (simp add: rpc_endpoint_def)

lemma py_get_not_dict: "\<forall>d. v \<noteq> JObj d \<Longrightarrow> py_get v k = Inl AttributeError"
  by (cases v) simp_all

lemma event_stream_chunks:
  "event_stream =
     [''data: Server message 0\<newline>\<newline>'', ''data: Server message 1\<newline>\<newline>'',
      ''data: Server message 2\<newline>\<newline>'', ''data: Server message 3\<newline>\<newline>'',
      ''data: Server message 4\<newline>\<newline>'']"
  by (simp add: event_stream_def upt_rec str_nat.simps digit_char_def)

lemma digit_char_not_newline: "n < 10 \<Longrightarrow> CHR 0x0A \<noteq> digit_char n"
proof -
  assume "n < 10"
  then have "n \<in> {0, 1, 2, 3, 4, 5, 6, 7, 8, 9}" by auto
  then show ?thesis by (auto simp: digit_char_def)
qed

lemma str_nat_no_newline: "CHR 0x0A \<notin> set (str_nat n)"
proof (induction n rule: str_nat.induct)
  case (1 n)
  show ?case
  proof (cases "n < 10")
    case True
    then show ?thesis by (simp add: str_nat.simps [of n] digit_char_not_newline)
  next
    case False
    with 1 show ?thesis by (simp add: str_nat.simps [of n] digit_char_not_newline)
  qed
qed

lemma event_stream_framed:
  "event_stream = map (\<lambda>i. spec_sse_frame (''Server message '' @ str_nat i)) [0..<5]"
  by (simp add: event_stream_def spec_sse_frame_def)

lemma ws_loop_texts:
  "ws_loop (map TextFrame ds) =
     (concat (map (\<lambda>d. [ReceiveText d, SendText (''You said: '' @ d)]) ds), Awaiting)"
  by (induction ds) simp_all

lemma ws_loop_texts_close:
  "ws_loop (map TextFrame ds @ Close # fs) =
     (concat (map (\<lambda>d. [ReceiveText d, SendText (''You said: '' @ d)]) ds),
      Raised WebSocketDisconnect)"
  by (induction ds) simp_all

subsection \<open>JSON-RPC\<close>

text \<open>
  C1. A POST to \<^verbatim>\<open>/rpc\<close> whose body is a JSON object with \<^verbatim>\<open>"method"\<close> equal to
  \<^verbatim>\<open>"ping"\<close> and an \<^verbatim>\<open>"id"\<close> member \<open>v\<close> reaches \<open>rpc_endpoint\<close>, which returns exactly
  \<^verbatim>\<open>{"jsonrpc": "2.0", "result": "pong", "id": v}\<close> and changes nothing else.
\<close>

theorem rpc_ping_returns_pong:
  assumes "req_method request = POST" and "req_path request = ''/rpc''"
    and "req_json request = Inr (JObj d)"
    and "map_of d ''method'' = Some (JStr ''ping'')"
    and "map_of d ''id'' = Some v"
  shows "rpc_endpoint request =
           Inr (JObj [(''jsonrpc'', JStr ''2.0''), (''result'', JStr ''pong''), (''id'', v)]) \<and>
         app request w =
           (Some (Inr (Body (JObj [(''jsonrpc'', JStr ''2.0''), (''result'', JStr ''pong''),
                                   (''id'', v)]))), w)"
  using assms by (simp add: app_rpc rpc_endpoint_dict dict_get_def)

theorem rpc_ping_returns_pong_witness:
  "app \<lparr>req_method = POST, req_path = ''/rpc'',
        req_json = Inr (JObj [(''method'', JStr ''ping''), (''id'', JInt 7)])\<rparr>
       \<lparr>stdout = [], write_raises = utf8_strict\<rparr> =
     (Some (Inr (Body (JObj [(''jsonrpc'', JStr ''2.0''), (''result'', JStr ''pong''),
                             (''id'', JInt 7)]))),
      \<lparr>stdout = [], write_raises = utf8_strict\<rparr>)"
  using rpc_ping_returns_pong
    [of "\<lparr>req_method = POST, req_path = ''/rpc'',
          req_json = Inr (JObj [(''method'', JStr ''ping''), (''id'', JInt 7)])\<rparr>"
        "[(''method'', JStr ''ping''), (''id'', JInt 7)]" "JInt 7"
        "\<lparr>stdout = [], write_raises = utf8_strict\<rparr>"]
  by simp

text \<open>
  C2. A POST to \<^verbatim>\<open>/rpc\<close> whose body is a JSON object in which \<^verbatim>\<open>"method"\<close> is absent or
  is anything but the string \<^verbatim>\<open>"ping"\<close> gets
  \<^verbatim>\<open>{"jsonrpc": "2.0", "error": "Method not found", "id": v}\<close>, where \<open>v\<close> is the
  request's \<^verbatim>\<open>"id"\<close> member when there is one and \<^verbatim>\<open>null\<close> otherwise.
\<close>

theorem rpc_other_method_not_found:
  assumes "req_method request = POST" and "req_path request = ''/rpc''"
    and "req_json request = Inr (JObj d)"
    and "map_of d ''method'' \<noteq> Some (JStr ''ping'')"
  shows "app request w =
           (Some (Inr (Body (JObj [(''jsonrpc'', JStr ''2.0''),
                                   (''error'', JStr ''Method not found''),
                                   (''id'', case map_of d ''id'' of None \<Rightarrow> JNull | Some v \<Rightarrow> v)]))),
            w)"
proof -
  from assms(4) have "dict_get d ''method'' \<noteq> JStr ''ping''"
    by (auto simp: dict_get_def split: option.splits)
  with assms(1-3) show ?thesis
    by (simp add: app_rpc rpc_endpoint_dict) (simp add: dict_get_def)
qed

theorem rpc_other_method_not_found_witness:
  "app \<lparr>req_method = POST, req_path = ''/rpc'',
        req_json = Inr (JObj [(''method'', JStr ''add''), (''params'', JArr [JInt 1, JInt 2])])\<rparr>
       \<lparr>stdout = [], write_raises = utf8_strict\<rparr> =
     (Some (Inr (Body (JObj [(''jsonrpc'', JStr ''2.0''), (''error'', JStr ''Method not found''),
                             (''id'', JNull)]))),
      \<lparr>stdout = [], write_raises = utf8_strict\<rparr>)"
  using rpc_other_method_not_found
    [of "\<lparr>req_method = POST, req_path = ''/rpc'',
          req_json = Inr (JObj [(''method'', JStr ''add''), (''params'', JArr [JInt 1, JInt 2])])\<rparr>"
        "[(''method'', JStr ''add''), (''params'', JArr [JInt 1, JInt 2])]"
        "\<lparr>stdout = [], write_raises = utf8_strict\<rparr>"]
  by simp

text \<open>
  C3, as the specification states it: a JSON-RPC request without \<^verbatim>\<open>"method"\<close> is rejected
  by a decode step, before any handler runs. The code has no such step. On the body
  \<^verbatim>\<open>{"id": 7}\<close> the endpoint function runs to its end and returns the unknown-method
  response; nothing is raised.
\<close>

theorem rpc_missing_method_counterexample:
  "rpc_endpoint \<lparr>req_method = POST, req_path = ''/rpc'',
                 req_json = Inr (JObj [(''id'', JInt 7)])\<rparr> =
     Inr (JObj [(''jsonrpc'', JStr ''2.0''), (''error'', JStr ''Method not found''),
                (''id'', JInt 7)]) \<and>
   \<not> isl (rpc_endpoint \<lparr>req_method = POST, req_path = ''/rpc'',
                          req_json = Inr (JObj [(''id'', JInt 7)])\<rparr>)"
  by (simp add: rpc_endpoint_def dict_get_def)

text \<open>
  C3, amended. A request whose body is a JSON object without \<^verbatim>\<open>"method"\<close> is not
  rejected: \<open>rpc_endpoint\<close> handles it as an unknown method, returning
  \<^verbatim>\<open>{"jsonrpc": "2.0", "error": "Method not found", "id": v}\<close> with \<open>v\<close> the id or
  \<^verbatim>\<open>null\<close>, which is the very response it gives when a method name \<open>m\<close> other than
  \<^verbatim>\<open>ping\<close> is put in.
\<close>

theorem rpc_missing_method_handled_as_unknown:
  assumes "req_json request = Inr (JObj d)" and "map_of d ''method'' = None"
    and "m \<noteq> ''ping''"
  shows "\<not> isl (rpc_endpoint request) \<and>
         rpc_endpoint request =
           Inr (JObj [(''jsonrpc'', JStr ''2.0''), (''error'', JStr ''Method not found''),
                      (''id'', dict_get d ''id'')]) \<and>
         rpc_endpoint request =
           rpc_endpoint (request\<lparr>req_json := Inr (JObj ((''method'', JStr m) # d))\<rparr>)"
  using assms by (simp add: rpc_endpoint_dict) (simp add: dict_get_def)

theorem rpc_missing_method_handled_as_unknown_witness:
  "rpc_endpoint \<lparr>req_method = POST, req_path = ''/rpc'', req_json = Inr (JObj [])\<rparr> =
     Inr (JObj [(''jsonrpc'', JStr ''2.0''), (''error'', JStr ''Method not found''),
                (''id'', JNull)]) \<and>
   rpc_endpoint \<lparr>req_method = POST, req_path = ''/rpc'', req_json = Inr (JObj [])\<rparr> =
     rpc_endpoint \<lparr>req_method = POST, req_path = ''/rpc'',
                   req_json = Inr (JObj [(''method'', JStr ''pong'')])\<rparr>"
  using rpc_missing_method_handled_as_unknown
    [of "\<lparr>req_method = POST, req_path = ''/rpc'', req_json = Inr (JObj [])\<rparr>" "[]" "''pong''"]
  by (auto simp add: dict_get_def)

subsection \<open>Malformed bodies\<close>

text \<open>
  C4, as the specification states it: a non-JSON or non-object body POSTed to the RPC or
  webhook path gets a well-formed error response, never an exception. The code builds no
  error response for such a body. The webhook endpoint answers the non-object body
  \<^verbatim>\<open>[1]\<close> with the success response; the RPC endpoint raises \<^verbatim>\<open>AttributeError\<close> on it;
  and on a body that is not JSON both endpoints end by the exception of
  \<^verbatim>\<open>request.json()\<close>.
\<close>

theorem malformed_body_counterexample:
  "webhook_listener \<lparr>req_method = POST, req_path = ''/webhook'', req_json = Inr (JArr [JInt 1])\<rparr>
       \<lparr>stdout = [], write_raises = utf8_strict\<rparr> =
     (Inr (JObj [(''status'', JStr ''received''), (''data'', JArr [JInt 1])]),
      \<lparr>stdout = [Str (JStr ''Webhook received:''), Sep, Str (JArr [JInt 1]), End],
        write_raises = utf8_strict\<rparr>) \<and>
   rpc_endpoint \<lparr>req_method = POST, req_path = ''/rpc'', req_json = Inr (JArr [JInt 1])\<rparr> =
     Inl AttributeError \<and>
   rpc_endpoint \<lparr>req_method = POST, req_path = ''/rpc'', req_json = Inl JSONDecodeError\<rparr> =
     Inl JSONDecodeError \<and>
   webhook_listener \<lparr>req_method = POST, req_path = ''/webhook'', req_json = Inl JSONDecodeError\<rparr>
       \<lparr>stdout = [], write_raises = utf8_strict\<rparr> =
     (Inl JSONDecodeError, \<lparr>stdout = [], write_raises = utf8_strict\<rparr>)"
  by (simp add: webhook_listener_def rpc_endpoint_def print_def)

text \<open>
  C4, amended. (a) When \<^verbatim>\<open>request.json()\<close> raises, as it does on a body that is not JSON,
  the exception leaves \<open>rpc_endpoint\<close> and \<open>webhook_listener\<close> unhandled and nothing is
  printed. (b) When the body is JSON but not an object, \<open>rpc_endpoint\<close> raises
  \<^verbatim>\<open>AttributeError\<close>, and \<open>webhook_listener\<close> prints the value and, when the print
  succeeds, returns \<^verbatim>\<open>{"status": "received", "data": v}\<close> as for any other JSON value;
  when the print raises, that exception leaves \<open>webhook_listener\<close> unhandled too.
\<close>

theorem malformed_body_outcomes:
  "(req_json request = Inl e \<longrightarrow>
      rpc_endpoint request = Inl e \<and> webhook_listener request w = (Inl e, w)) \<and>
   (req_json request = Inr v \<and> (\<forall>d. v \<noteq> JObj d) \<longrightarrow>
      rpc_endpoint request = Inl AttributeError \<and>
      webhook_listener request w =
        (case print [JStr ''Webhook received:'', v] w of
           (None, w') \<Rightarrow> (Inr (JObj [(''status'', JStr ''received''), (''data'', v)]), w')
         | (Some e', w') \<Rightarrow> (Inl e', w')))"
  by (simp add: rpc_endpoint_def webhook_listener_def py_get_not_dict
           split: prod.split option.split)

theorem malformed_body_outcomes_witness:
  "rpc_endpoint \<lparr>req_method = POST, req_path = ''/rpc'', req_json = Inl JSONDecodeError\<rparr> =
     Inl JSONDecodeError \<and>
   rpc_endpoint \<lparr>req_method = POST, req_path = ''/rpc'', req_json = Inr (JStr ''ping'')\<rparr> =
     Inl AttributeError \<and>
   webhook_listener \<lparr>req_method = POST, req_path = ''/webhook'', req_json = Inr (JStr ''ping'')\<rparr>
       \<lparr>stdout = [], write_raises = utf8_strict\<rparr> =
     (Inr (JObj [(''status'', JStr ''received''), (''data'', JStr ''ping'')]),
      \<lparr>stdout = [Str (JStr ''Webhook received:''), Sep, Str (JStr ''ping''), End],
        write_raises = utf8_strict\<rparr>) \<and>
   webhook_listener
       \<lparr>req_method = POST, req_path = ''/webhook'',
         req_json = Inr (JStr [CHR 0xED, CHR 0xBF, CHR 0xBF])\<rparr>
       \<lparr>stdout = [], write_raises = utf8_strict\<rparr> =
     (Inl UnicodeEncodeError,
      \<lparr>stdout = [Str (JStr ''Webhook received:''), Sep], write_raises = utf8_strict\<rparr>)"
  using malformed_body_outcomes
    [of "\<lparr>req_method = POST, req_path = ''/rpc'', req_json = Inl JSONDecodeError\<rparr>"
        JSONDecodeError "\<lparr>stdout = [], write_raises = utf8_strict\<rparr>" "JNull"]
    malformed_body_outcomes
    [of "\<lparr>req_method = POST, req_path = ''/rpc'', req_json = Inr (JStr ''ping'')\<rparr>"
        JSONDecodeError "\<lparr>stdout = [], write_raises = utf8_strict\<rparr>" "JStr ''ping''"]
    malformed_body_outcomes
    [of "\<lparr>req_method = POST, req_path = ''/webhook'', req_json = Inr (JStr ''ping'')\<rparr>"
        JSONDecodeError "\<lparr>stdout = [], write_raises = utf8_strict\<rparr>" "JStr ''ping''"]
    malformed_body_outcomes
    [of "\<lparr>req_method = POST, req_path = ''/webhook'',
          req_json = Inr (JStr [CHR 0xED, CHR 0xBF, CHR 0xBF])\<rparr>"
        JSONDecodeError "\<lparr>stdout = [], write_raises = utf8_strict\<rparr>"
        "JStr [CHR 0xED, CHR 0xBF, CHR 0xBF]"]
  by (simp add: print_def)

subsection \<open>Server-sent events\<close>

text \<open>
  C5. A GET of \<^verbatim>\<open>/sse\<close> returns the streaming response of \<open>sse_endpoint\<close>, whose media
  type is \<^verbatim>\<open>text/event-stream\<close>, and every chunk of its body is framed as the wire contract
  says: \<^verbatim>\<open>data: \<close>, a payload without a line feed, and two line feeds.
\<close>

theorem sse_media_type_and_framing:
  assumes "req_method request = GET" and "req_path request = ''/sse''"
  shows "app request w = (Some (Inr (Streaming sse_endpoint)), w) \<and>
         media_type sse_endpoint = ''text/event-stream'' \<and>
         (\<forall>m \<in> set (content sse_endpoint). \<exists>p. m = spec_sse_frame p \<and> CHR 0x0A \<notin> set p)"
proof (intro conjI ballI)
  show "app request w = (Some (Inr (Streaming sse_endpoint)), w)"
    using assms by (rule app_sse)
  show "media_type sse_endpoint = ''text/event-stream''"
    by (simp add: sse_endpoint_def)
next
  fix m
  assume "m \<in> set (content sse_endpoint)"
  then obtain i where "m = spec_sse_frame (''Server message '' @ str_nat i)"
    by (auto simp: sse_endpoint_def event_stream_framed)
  moreover have "CHR 0x0A \<notin> set (''Server message '' @ str_nat i)"
    by (simp add: str_nat_no_newline)
  ultimately show "\<exists>p. m = spec_sse_frame p \<and> CHR 0x0A \<notin> set p"
    by blast
qed

theorem sse_media_type_and_framing_witness:
  "app \<lparr>req_method = GET, req_path = ''/sse'', req_json = Inl JSONDecodeError\<rparr>
       \<lparr>stdout = [], write_raises = utf8_strict\<rparr> =
     (Some (Inr (Streaming sse_endpoint)), \<lparr>stdout = [], write_raises = utf8_strict\<rparr>) \<and>
   ''data: Server message 0\<newline>\<newline>'' \<in> set (content sse_endpoint) \<and>
   (\<exists>p. ''data: Server message 0\<newline>\<newline>'' = spec_sse_frame p \<and> CHR 0x0A \<notin> set p)"
proof -
  have mem: "''data: Server message 0\<newline>\<newline>'' \<in> set (content sse_endpoint)"
    by (simp add: sse_endpoint_def event_stream_chunks)
  from sse_media_type_and_framing
    [of "\<lparr>req_method = GET, req_path = ''/sse'', req_json = Inl JSONDecodeError\<rparr>"
        "\<lparr>stdout = [], write_raises = utf8_strict\<rparr>"]
  show ?thesis using mem by simp
qed

text \<open>
  C6. The stream of \<open>sse_endpoint\<close> is finite and ordered: exactly five chunks, carrying
  the payloads \<^verbatim>\<open>Server message 0\<close> to \<^verbatim>\<open>Server message 4\<close> in that order, and then
  it ends.
\<close>

theorem sse_five_messages_in_order:
  "content sse_endpoint =
     [''data: Server message 0\<newline>\<newline>'', ''data: Server message 1\<newline>\<newline>'',
      ''data: Server message 2\<newline>\<newline>'', ''data: Server message 3\<newline>\<newline>'',
      ''data: Server message 4\<newline>\<newline>''] \<and>
   content sse_endpoint =
     map spec_sse_frame [''Server message 0'', ''Server message 1'', ''Server message 2'',
                         ''Server message 3'', ''Server message 4''] \<and>
   length (content sse_endpoint) = 5"
  by (simp add: sse_endpoint_def event_stream_chunks spec_sse_frame_def)

subsection \<open>WebSocket\<close>

text \<open>
  C7. On an accepted session, every text frame \<open>d\<close> the peer delivers is answered by
  exactly one text frame \<^verbatim>\<open>You said: \<close> followed by \<open>d\<close>, sent before the next frame is
  received: the trace is the accept followed by one receive-send pair per frame, whether
  the peer then stays silent or closes.
\<close>

theorem websocket_echo:
  "websocket_endpoint (map TextFrame ds) =
     (Accept # concat (map (\<lambda>d. [ReceiveText d, SendText (''You said: '' @ d)]) ds), Awaiting) \<and>
   websocket_endpoint (map TextFrame ds @ Close # fs) =
     (Accept # concat (map (\<lambda>d. [ReceiveText d, SendText (''You said: '' @ d)]) ds),
      Raised WebSocketDisconnect)"
  by (simp add: websocket_endpoint_def ws_loop_texts ws_loop_texts_close)

subsection \<open>Idempotence\<close>

text \<open>
  C8. Invoking the REST, composite or RPC handler a second time on the same request, in
  the state the first invocation left, gives the same outcome as the first invocation, and
  neither invocation changes the state.
\<close>

theorem request_response_handlers_idempotent:
  "invoke Rest request (snd (invoke Rest request w)) = invoke Rest request w \<and>
   snd (invoke Rest request w) = w \<and>
   invoke Composite request (snd (invoke Composite request w)) = invoke Composite request w \<and>
   snd (invoke Composite request w) = w \<and>
   invoke Rpc request (snd (invoke Rpc request w)) = invoke Rpc request w \<and>
   snd (invoke Rpc request w) = w"
  by simp

subsection \<open>Webhook\<close>

text \<open>
  C9, as the claim states it: every POST to \<^verbatim>\<open>/webhook\<close> whose body parses as a JSON value
  \<open>p\<close> gets \<^verbatim>\<open>{"status": "received", "data": p}\<close>. The body \<^verbatim>\<open>"\ud800"\<close> parses, as the
  one-character string of a lone surrogate. On a UTF-8 standard output the
  \<^verbatim>\<open>print\<close> before the \<^verbatim>\<open>return\<close> raises \<^verbatim>\<open>UnicodeEncodeError\<close> on it, after it has
  written its first argument and the separator; the endpoint returns nothing.
\<close>

theorem webhook_print_raises_counterexample:
  "app \<lparr>req_method = POST, req_path = ''/webhook'',
        req_json = Inr (JStr [CHR 0xED, CHR 0xA0, CHR 0x80])\<rparr>
       \<lparr>stdout = [], write_raises = utf8_strict\<rparr> =
     (Some (Inl UnicodeEncodeError),
      \<lparr>stdout = [Str (JStr ''Webhook received:''), Sep], write_raises = utf8_strict\<rparr>)"
  by (simp add: app_webhook webhook_listener_def print_def)

text \<open>
  C9, amended. A POST to \<^verbatim>\<open>/webhook\<close> whose body parses as the JSON value \<open>p\<close>, and for
  which the \<^verbatim>\<open>print\<close> of \<open>p\<close> succeeds, gets \<^verbatim>\<open>{"status": "received", "data": p}\<close>, with
  \<open>p\<close> as it was parsed; the only other effect is the printed line. When the \<^verbatim>\<open>print\<close>
  raises, that exception leaves the endpoint and no response is returned.
\<close>

theorem webhook_echoes_payload:
  assumes "req_method request = POST" and "req_path request = ''/webhook''"
    and "req_json request = Inr p"
  shows "(print [JStr ''Webhook received:'', p] w = (None, w') \<longrightarrow>
            app request w =
              (Some (Inr (Body (JObj [(''status'', JStr ''received''), (''data'', p)]))), w') \<and>
            stdout w' = stdout w @ [Str (JStr ''Webhook received:''), Sep, Str p, End]) \<and>
         (print [JStr ''Webhook received:'', p] w = (Some e, w') \<longrightarrow>
            app request w = (Some (Inl e), w'))"
proof (intro conjI impI)
  assume ok: "print [JStr ''Webhook received:'', p] w = (None, w')"
  with assms show "app request w =
      (Some (Inr (Body (JObj [(''status'', JStr ''received''), (''data'', p)]))), w')"
    by (simp add: app_webhook webhook_listener_def)
  from ok show "stdout w' = stdout w @ [Str (JStr ''Webhook received:''), Sep, Str p, End]"
    by (auto simp: print_def split: option.splits)
next
  assume "print [JStr ''Webhook received:'', p] w = (Some e, w')"
  with assms show "app request w = (Some (Inl e), w')"
    by (simp add: app_webhook webhook_listener_def)
qed

theorem webhook_echoes_payload_witness:
  "app \<lparr>req_method = POST, req_path = ''/webhook'',
        req_json = Inr (JObj [(''event'', JStr ''push''), (''n'', JArr [JInt 1, JNull])])\<rparr>
       \<lparr>stdout = [], write_raises = utf8_strict\<rparr> =
     (Some (Inr (Body (JObj [(''status'', JStr ''received''),
                             (''data'', JObj [(''event'', JStr ''push''),
                                              (''n'', JArr [JInt 1, JNull])])]))),
      \<lparr>stdout = [Str (JStr ''Webhook received:''), Sep,
                  Str (JObj [(''event'', JStr ''push''), (''n'', JArr [JInt 1, JNull])]), End],
        write_raises = utf8_strict\<rparr>) \<and>
   app \<lparr>req_method = POST, req_path = ''/webhook'',
        req_json = Inr (JStr [CHR 0xED, CHR 0xB0, CHR 0x80])\<rparr>
       \<lparr>stdout = [], write_raises = utf8_strict\<rparr> =
     (Some (Inl UnicodeEncodeError),
      \<lparr>stdout = [Str (JStr ''Webhook received:''), Sep], write_raises = utf8_strict\<rparr>)"
proof -
  let ?w = "\<lparr>stdout = [], write_raises = utf8_strict\<rparr>"
  let ?p = "JObj [(''event'', JStr ''push''), (''n'', JArr [JInt 1, JNull])]"
  let ?q = "JStr [CHR 0xED, CHR 0xB0, CHR 0x80]"
  have ok: "print [JStr ''Webhook received:'', ?p] ?w =
      (None, \<lparr>stdout = [Str (JStr ''Webhook received:''), Sep, Str ?p, End],
               write_raises = utf8_strict\<rparr>)"
    by (simp add: print_def)
  have bad: "print [JStr ''Webhook received:'', ?q] ?w =
      (Some UnicodeEncodeError,
       \<lparr>stdout = [Str (JStr ''Webhook received:''), Sep], write_raises = utf8_strict\<rparr>)"
    by (simp add: print_def)
  from webhook_echoes_payload
      [of "\<lparr>req_method = POST, req_path = ''/webhook'', req_json = Inr ?p\<rparr>" ?p ?w
          "\<lparr>stdout = [Str (JStr ''Webhook received:''), Sep, Str ?p, End],
            write_raises = utf8_strict\<rparr>"] ok
    webhook_echoes_payload
      [of "\<lparr>req_method = POST, req_path = ''/webhook'', req_json = Inr ?q\<rparr>" ?q ?w
          "\<lparr>stdout = [Str (JStr ''Webhook received:''), Sep], write_raises = utf8_strict\<rparr>"
          UnicodeEncodeError]
    bad
  show ?thesis by simp
qed

subsection \<open>SOAP\<close>

text \<open>
  C10. For every string \<open>name\<close>, the operation \<open>say_hello\<close> returns \<^verbatim>\<open>Hello \<close> followed by
  \<open>name\<close>.
\<close>

theorem say_hello_concat: "say_hello (Some name) = ''Hello '' @ name"
  by (simp add: say_hello_def format_unicode_def)

end
